theory Spec2Isabelle
  imports Main
begin

section \<open>Python values as the scraper handles them\<close>

text \<open>
  The payloads the scraper reads out of the browser are JSON objects turned into Python
  dictionaries. Their scalar values are modelled by \<open>pyval\<close>; a dictionary is an
  association list read with \<open>dict_get\<close> (Python's \<^verbatim>\<open>d.get(k)\<close>) and
  \<open>dict_get_default\<close> (\<^verbatim>\<open>d.get(k, default)\<close>). Strings are lists of 8-bit
  characters; floats and nested containers inside a payload are not modelled.
\<close>

datatype pyval = PNone | PBool bool | PInt int | PStr string

type_synonym pydict = "(string \<times> pyval) list"

text \<open>Python truthiness: \<^verbatim>\<open>if v\<close>.\<close>

fun truthy :: "pyval \<Rightarrow> bool" where
  "truthy PNone = False"
| "truthy (PBool b) = b"
| "truthy (PInt i) = (i \<noteq> 0)"
| "truthy (PStr s) = (s \<noteq> [])"

definition dict_get :: "pydict \<Rightarrow> string \<Rightarrow> pyval" where
  "dict_get d k = (case map_of d k of None \<Rightarrow> PNone | Some v \<Rightarrow> v)"



text \<open>\<^verbatim>\<open>str(v)\<close>, which is also what an f-string field \<^verbatim>\<open>{v}\<close> renders.\<close>

definition digit_char :: "nat \<Rightarrow> char" where
  "digit_char n = ''0123456789'' ! (n mod 10)"

fun str_nat :: "nat \<Rightarrow> string" where
  "str_nat n = (if n < 10 then [digit_char n] else str_nat (n div 10) @ [digit_char n])"

declare str_nat.simps [simp del]

definition str_int :: "int \<Rightarrow> string" where
  "str_int i = (if i < 0 then CHR ''-'' # str_nat (nat (- i)) else str_nat (nat i))"

fun py_str :: "pyval \<Rightarrow> string" where
  "py_str PNone = ''None''"
| "py_str (PBool b) = (if b then ''True'' else ''False'')"
| "py_str (PInt i) = str_int i"
| "py_str (PStr s) = s"

text \<open>\<^verbatim>\<open>s.lower()\<close> on the ASCII letters.\<close>

definition lower_char :: "char \<Rightarrow> char" where
  "lower_char c =
     (case map_of (zip ''ABCDEFGHIJKLMNOPQRSTUVWXYZ'' ''abcdefghijklmnopqrstuvwxyz'') c of
        None \<Rightarrow> c
      | Some l \<Rightarrow> l)"

definition py_lower :: "string \<Rightarrow> string" where
  "py_lower s = map lower_char s"

section \<open>URL Builder\<close>

text \<open>
  \<^verbatim>\<open>playwright_meeting_scraper/firestone.py\<close>: \<^verbatim>\<open>API_BASE_URL\<close> and
  \<^verbatim>\<open>build_download_url(remote_file, is_attachment=False, plain_text=False)\<close>.
  The argument \<open>remote_file\<close> is \<open>None\<close> or a dictionary; an empty dictionary is falsy,
  so \<^verbatim>\<open>if not remote_file\<close> returns \<open>None\<close> for both.
\<close>

definition API_BASE_URL :: string where
  "API_BASE_URL = ''https://firestoneco.api.civicclerk.com/v1/''"

definition build_download_url :: "pydict option \<Rightarrow> bool \<Rightarrow> bool \<Rightarrow> pyval" where
  "build_download_url remote_file is_attachment plain_text =
     (case remote_file of
        None \<Rightarrow> PNone
      | Some rf \<Rightarrow>
          if rf = [] then PNone
          else
            let file_id = dict_get rf ''fileId'' in
            if \<not> truthy file_id then PNone
            else
              let stream_url = dict_get rf ''streamUrl'' in
              if truthy stream_url then stream_url
              else if is_attachment then
                PStr (API_BASE_URL @ ''Meetings/GetAttachmentFile(fileId='' @ py_str file_id @ '')'')
              else
                PStr (API_BASE_URL @ ''Meetings/GetMeetingFileStream(fileId='' @ py_str file_id
                      @ '',plainText='' @ py_lower (py_str (PBool plain_text)) @ '')''))"

text \<open>
  \<^verbatim>\<open>selenium_meeting_scraper/firestone.py\<close>: the same two declarations of the Selenium
  backend.
\<close>

definition selenium_API_BASE_URL :: string where
  "selenium_API_BASE_URL = ''https://firestoneco.api.civicclerk.com/v1/''"

definition selenium_build_download_url :: "pydict option \<Rightarrow> bool \<Rightarrow> bool \<Rightarrow> pyval" where
  "selenium_build_download_url remote_file is_attachment plain_text =
     (case remote_file of
        None \<Rightarrow> PNone
      | Some rf \<Rightarrow>
          if rf = [] then PNone
          else
            let file_id = dict_get rf ''fileId'' in
            if \<not> truthy file_id then PNone
            else
              let stream_url = dict_get rf ''streamUrl'' in
              if truthy stream_url then stream_url
              else if is_attachment then
                PStr (selenium_API_BASE_URL @ ''Meetings/GetAttachmentFile(fileId=''
                      @ py_str file_id @ '')'')
              else
                PStr (selenium_API_BASE_URL @ ''Meetings/GetMeetingFileStream(fileId=''
                      @ py_str file_id @ '',plainText='' @ py_lower (py_str (PBool plain_text))
                      @ '')''))"


text \<open>
  The reference definition of the specification's URL Builder: its three rules, in order.
  A reference has a \<open>file_id\<close> (a \<open>stream_url\<close>) when the field is there with a
  value Python counts as true.
\<close>

definition reference_field :: "pydict option \<Rightarrow> string \<Rightarrow> pyval" where
  "reference_field file_reference k = (case file_reference of None \<Rightarrow> PNone | Some rf \<Rightarrow> dict_get rf k)"

definition build_download_url_spec :: "pydict option \<Rightarrow> bool \<Rightarrow> bool \<Rightarrow> pyval" where
  "build_download_url_spec file_reference is_attachment is_plain_text =
     (if \<not> truthy (reference_field file_reference ''fileId'') then PNone
      else if truthy (reference_field file_reference ''streamUrl'')
      then reference_field file_reference ''streamUrl''
      else if is_attachment
      then PStr (''https://firestoneco.api.civicclerk.com/v1/'' @ ''Meetings/GetAttachmentFile(fileId=''
                 @ py_str (reference_field file_reference ''fileId'') @ '')'')
      else PStr (''https://firestoneco.api.civicclerk.com/v1/'' @ ''Meetings/GetMeetingFileStream(fileId=''
                 @ py_str (reference_field file_reference ''fileId'') @ '',plainText=''
                 @ (if is_plain_text then ''true'' else ''false'') @ '')''))"

section \<open>Character classes, regular expressions and string helpers\<close>

text \<open>
  The classes of Python's \<^verbatim>\<open>re\<close> on the ASCII range: \<^verbatim>\<open>[A-Za-z]\<close>,
  \<^verbatim>\<open>\d\<close>, \<^verbatim>\<open>\s\<close> (the characters for which \<^verbatim>\<open>str.isspace\<close> holds:
  codes 9 to 13, 28 to 31 and 32) and \<^verbatim>\<open>\w\<close>. Characters outside ASCII belong to
  none of them in this model.
\<close>

definition is_alpha :: "char \<Rightarrow> bool" where
  "is_alpha c = (c \<in> set ''ABCDEFGHIJKLMNOPQRSTUVWXYZabcdefghijklmnopqrstuvwxyz'')"

definition is_digit :: "char \<Rightarrow> bool" where
  "is_digit c = (c \<in> set ''0123456789'')"

definition is_space :: "char \<Rightarrow> bool" where
  "is_space c = (c \<in> set [CHR 0x09, CHR 0x0A, CHR 0x0B, CHR 0x0C, CHR 0x0D,
                            CHR 0x1C, CHR 0x1D, CHR 0x1E, CHR 0x1F, CHR 0x20])"


text \<open>\<^verbatim>\<open>s.strip()\<close>.\<close>

definition py_strip :: "string \<Rightarrow> string" where
  "py_strip s = rev (dropWhile is_space (rev (dropWhile is_space s)))"


text \<open>\<^verbatim>\<open>int(s)\<close> on a string of decimal digits.\<close>

definition digit_val :: "char \<Rightarrow> nat" where
  "digit_val c = (case map_of (zip ''0123456789'' [0, 1, 2, 3, 4, 5, 6, 7, 8, 9]) c of
                    None \<Rightarrow> 0 | Some v \<Rightarrow> v)"

definition int_of_digits :: "string \<Rightarrow> nat" where
  "int_of_digits s = foldl (\<lambda>a c. 10 * a + digit_val c) 0 s"

text \<open>
  Pieces of a pattern matched at the front of a string: a non-empty greedy run of a class
  (\<^verbatim>\<open>X+\<close>) and an optional single character (\<^verbatim>\<open>c?\<close>). In the patterns below every
  repeated class is followed by a token that starts with a character outside the class, so
  the greedy run is the only way the pattern can match and no backtracking is needed.
\<close>

definition run1 :: "(char \<Rightarrow> bool) \<Rightarrow> string \<Rightarrow> (string \<times> string) option" where
  "run1 P s = (if takeWhile P s = [] then None else Some (takeWhile P s, dropWhile P s))"

definition opt_char :: "char \<Rightarrow> string \<Rightarrow> string" where
  "opt_char c s = (case s of [] \<Rightarrow> [] | x # xs \<Rightarrow> if x = c then xs else s)"

definition digits4 :: "string \<Rightarrow> string option" where
  "digits4 s = (if length (take 4 s) = 4 \<and> list_all is_digit (take 4 s) then Some (take 4 s) else None)"

text \<open>
  \<^verbatim>\<open>([A-Za-z]+),?\s+([A-Za-z]+)\.?\s+(\d+),?\s+(\d{4})\<close> anchored at the front of the
  string; the result is groups 2, 3 and 4 (group 1, the weekday, is never read).
\<close>

definition match_aria :: "string \<Rightarrow> (string \<times> string \<times> string) option" where
  "match_aria s =
     (case run1 is_alpha s of None \<Rightarrow> None | Some (g1, r1) \<Rightarrow>
      case run1 is_space (opt_char CHR '','' r1) of None \<Rightarrow> None | Some (w1, r2) \<Rightarrow>
      case run1 is_alpha r2 of None \<Rightarrow> None | Some (g2, r3) \<Rightarrow>
      case run1 is_space (opt_char CHR ''.'' r3) of None \<Rightarrow> None | Some (w2, r4) \<Rightarrow>
      case run1 is_digit r4 of None \<Rightarrow> None | Some (g3, r5) \<Rightarrow>
      case run1 is_space (opt_char CHR '','' r5) of None \<Rightarrow> None | Some (w3, r6) \<Rightarrow>
      case digits4 r6 of None \<Rightarrow> None | Some g4 \<Rightarrow> Some (g2, g3, g4))"

text \<open>\<^verbatim>\<open>re.search\<close> of that pattern: the match at the leftmost position that has one.\<close>

fun search_aria :: "string \<Rightarrow> (string \<times> string \<times> string) option" where
  "search_aria [] = None"
| "search_aria (c # cs) =
     (case match_aria (c # cs) of Some g \<Rightarrow> Some g | None \<Rightarrow> search_aria cs)"

text \<open>\<^verbatim>\<open>([A-Za-z]+)\s+(\d+),?\s+(\d{4})\<close>, groups 1, 2 and 3.\<close>

definition match_h2 :: "string \<Rightarrow> (string \<times> string \<times> string) option" where
  "match_h2 s =
     (case run1 is_alpha s of None \<Rightarrow> None | Some (g1, r1) \<Rightarrow>
      case run1 is_space r1 of None \<Rightarrow> None | Some (w1, r2) \<Rightarrow>
      case run1 is_digit r2 of None \<Rightarrow> None | Some (g2, r3) \<Rightarrow>
      case run1 is_space (opt_char CHR '','' r3) of None \<Rightarrow> None | Some (w2, r4) \<Rightarrow>
      case digits4 r4 of None \<Rightarrow> None | Some g3 \<Rightarrow> Some (g1, g2, g3))"

fun search_h2 :: "string \<Rightarrow> (string \<times> string \<times> string) option" where
  "search_h2 [] = None"
| "search_h2 (c # cs) =
     (case match_h2 (c # cs) of Some g \<Rightarrow> Some g | None \<Rightarrow> search_h2 cs)"


section \<open>Exceptions\<close>

text \<open>
  A call into the browser driver or the standard library either raises or returns.
  Every \<^verbatim>\<open>except\<close> clause of the modelled code is a bare \<^verbatim>\<open>except:\<close> or
  \<^verbatim>\<open>except Exception\<close>, so one constructor stands for every exception.
\<close>

datatype 'a outcome = Raises | Returns 'a

section \<open>Date Extractor\<close>

text \<open>
  \<^verbatim>\<open>datetime.date\<close> values, and the constructor \<^verbatim>\<open>datetime(year, month, day).date()\<close>
  of the standard library, which raises \<^verbatim>\<open>ValueError\<close> unless the year is in
  1..9999, the month in 1..12 and the day exists in that month.
\<close>

datatype pydate = Date (year: nat) (month: nat) (day: nat)

definition is_leap :: "nat \<Rightarrow> bool" where
  "is_leap y = (y mod 4 = 0 \<and> (0 < y mod 100 \<or> y mod 400 = 0))"

definition days_in_month :: "nat \<Rightarrow> nat \<Rightarrow> nat" where
  "days_in_month y m =
     (if m = 2 then (if is_leap y then 29 else 28)
      else if m = 4 \<or> m = 6 \<or> m = 9 \<or> m = 11 then 30 else 31)"

definition make_date :: "nat \<Rightarrow> nat \<Rightarrow> nat \<Rightarrow> pydate outcome" where
  "make_date y m d =
     (if 1 \<le> y \<and> y \<le> 9999 \<and> 1 \<le> m \<and> m \<le> 12 \<and> 1 \<le> d \<and> d \<le> days_in_month y m
      then Returns (Date y m d) else Raises)"

text \<open>
  A \<^verbatim>\<open>datetime\<close> as \<^verbatim>\<open>datetime.fromisoformat\<close> returns it. The parser itself belongs
  to the standard library and its accepted grammar depends on the interpreter version; it
  is a parameter \<open>fromisoformat\<close> of the extractor, \<open>None\<close> standing for \<^verbatim>\<open>ValueError\<close>.
\<close>

record pydatetime =
  dt_date :: pydate
  dt_hour :: nat
  dt_minute :: nat
  dt_second :: nat
  dt_utcoffset :: "int option"

text \<open>\<^verbatim>\<open>s.replace('Z', '+00:00')\<close>.\<close>

definition replace_Z :: "string \<Rightarrow> string" where
  "replace_Z s = concat (map (\<lambda>c. if c = CHR ''Z'' then ''+00:00'' else [c]) s)"

definition month_map :: "(string \<times> nat) list" where
  "month_map = [(''jan'', 1), (''feb'', 2), (''mar'', 3), (''apr'', 4), (''may'', 5), (''jun'', 6),
                (''jul'', 7), (''aug'', 8), (''sep'', 9), (''oct'', 10), (''nov'', 11), (''dec'', 12)]"

text \<open>
  What the link element answers: the two attributes (\<^verbatim>\<open>get_attribute\<close> gives \<open>None\<close>
  for a missing attribute) and the text of the \<^verbatim>\<open>h2\<close> inside the date-details block
  (the lookup raises when the block is not there).
\<close>

record link_element =
  data_date :: "string option outcome"
  aria_label :: "string option outcome"
  date_text :: "string option outcome"

text \<open>
  Source 1, lines 23-30: its own \<^verbatim>\<open>try\<close> turns a parse error into falling through.
\<close>

definition from_data_date :: "(string \<Rightarrow> pydatetime option) \<Rightarrow> string option \<Rightarrow> pydate option" where
  "from_data_date fromisoformat data_date_attr =
     (case data_date_attr of
        None \<Rightarrow> None
      | Some s \<Rightarrow>
          if s = [] then None
          else (case fromisoformat (replace_Z s) of
                  None \<Rightarrow> None
                | Some date_obj \<Rightarrow> Some (dt_date date_obj)))"

text \<open>
  Source 2, lines 33-49: no \<^verbatim>\<open>try\<close> of its own, so a \<^verbatim>\<open>ValueError\<close> of the date
  constructor leaves the block as an exception.
\<close>

definition from_aria_label :: "string option \<Rightarrow> pydate option outcome" where
  "from_aria_label aria_label_attr =
     (case aria_label_attr of
        None \<Rightarrow> Returns None
      | Some s \<Rightarrow>
          if s = [] then Returns None
          else (case search_aria s of
                  None \<Rightarrow> Returns None
                | Some (month_name, d, y) \<Rightarrow>
                    (case map_of month_map (take 3 (py_lower month_name)) of
                       None \<Rightarrow> Returns None
                     | Some m \<Rightarrow>
                         (case make_date (int_of_digits y) m (int_of_digits d) of
                            Raises \<Rightarrow> Raises
                          | Returns dt \<Rightarrow> Returns (Some dt)))))"

text \<open>
  Source 3, lines 52-73: wrapped in \<^verbatim>\<open>try ... except: pass\<close>, so every failure is
  \<open>None\<close>.
\<close>

definition from_date_text :: "string option outcome \<Rightarrow> pydate option" where
  "from_date_text txt =
     (case txt of
        Raises \<Rightarrow> None
      | Returns None \<Rightarrow> None
      | Returns (Some s) \<Rightarrow>
          if s = [] then None
          else (case search_h2 (py_strip s) of
                  None \<Rightarrow> None
                | Some (month_name, d, y) \<Rightarrow>
                    (case map_of month_map (take 3 (py_lower month_name)) of
                       None \<Rightarrow> None
                     | Some m \<Rightarrow>
                         (case make_date (int_of_digits y) m (int_of_digits d) of
                            Raises \<Rightarrow> None
                          | Returns dt \<Rightarrow> Some dt))))"

text \<open>
  \<^verbatim>\<open>extract_meeting_date\<close>: the three blocks in order inside the outer
  \<^verbatim>\<open>try ... except Exception: return None\<close>. The Selenium backend's function has the same
  three blocks; it differs only in the driver calls that fetch the text of source 3.
\<close>

definition extract_meeting_date :: "(string \<Rightarrow> pydatetime option) \<Rightarrow> link_element \<Rightarrow> pydate option" where
  "extract_meeting_date fromisoformat link =
     (case data_date link of
        Raises \<Rightarrow> None
      | Returns dd \<Rightarrow>
          (case from_data_date fromisoformat dd of
             Some d \<Rightarrow> Some d
           | None \<Rightarrow>
               (case aria_label link of
                  Raises \<Rightarrow> None
                | Returns al \<Rightarrow>
                    (case from_aria_label al of
                       Raises \<Rightarrow> None
                     | Returns (Some d) \<Rightarrow> Some d
                     | Returns None \<Rightarrow> from_date_text (date_text link)))))"

section \<open>Date-range filter\<close>

text \<open>
  \<^verbatim>\<open>Scraper.filter_meetings_by_date_range\<close> (both \<^verbatim>\<open>base.py\<close> files have the same
  text). A meeting is the dictionary \<^verbatim>\<open>scrape_meetings\<close> builds; dates compare as
  Python's \<^verbatim>\<open>date\<close> objects do, by year, then month, then day, and every date object is
  truthy.
\<close>

record meeting =
  event_id :: "string option"
  title :: string
  url :: string
  href :: string
  date :: "pydate option"

definition date_lt :: "pydate \<Rightarrow> pydate \<Rightarrow> bool" where
  "date_lt a b =
     (year a < year b \<or> (year a = year b \<and> (month a < month b \<or> (month a = month b \<and> day a < day b))))"

fun filter_loop :: "pydate option \<Rightarrow> pydate option \<Rightarrow> meeting list \<Rightarrow> meeting list" where
  "filter_loop start_date end_date [] = []"
| "filter_loop start_date end_date (m # ms) =
     (case date m of
        None \<Rightarrow> filter_loop start_date end_date ms
      | Some meeting_date \<Rightarrow>
          if (case start_date of None \<Rightarrow> False | Some s \<Rightarrow> date_lt meeting_date s)
          then filter_loop start_date end_date ms
          else if (case end_date of None \<Rightarrow> False | Some e \<Rightarrow> date_lt e meeting_date)
          then filter_loop start_date end_date ms
          else m # filter_loop start_date end_date ms)"

definition filter_meetings_by_date_range ::
  "meeting list \<Rightarrow> pydate option \<Rightarrow> pydate option \<Rightarrow> meeting list" where
  "filter_meetings_by_date_range meetings start_date end_date =
     (if start_date = None \<and> end_date = None then meetings
      else filter_loop start_date end_date meetings)"

text \<open>The claim's description of the filter: the meetings whose date lies within the bounds.\<close>

definition date_le :: "pydate \<Rightarrow> pydate \<Rightarrow> bool" where
  "date_le a b = (date_lt a b \<or> a = b)"

definition in_date_range :: "pydate option \<Rightarrow> pydate option \<Rightarrow> meeting \<Rightarrow> bool" where
  "in_date_range start_date end_date m =
     (case date m of
        None \<Rightarrow> False
      | Some d \<Rightarrow>
          (case start_date of None \<Rightarrow> True | Some s \<Rightarrow> date_le s d) \<and>
          (case end_date of None \<Rightarrow> True | Some e \<Rightarrow> date_le d e))"

section \<open>Component Inspector: the ancestor walk\<close>

text \<open>
  The JavaScript function \<^verbatim>\<open>findComponentWithRemoteFile(fiber, depth = 0)\<close> inside
  \<^verbatim>\<open>inspect_button_handlers\<close> (the same text in both backends). A fiber carries the
  display name of its component type and its committed props; its \<^verbatim>\<open>return\<close> chain is
  the rest of the list, and a null fiber is the empty list.
\<close>

datatype jsval = JUndefined | JNull | JBool bool | JNum int | JStr string | JObj pydict

fun js_truthy :: "jsval \<Rightarrow> bool" where
  "js_truthy JUndefined = False"
| "js_truthy JNull = False"
| "js_truthy (JBool b) = b"
| "js_truthy (JNum n) = (n \<noteq> 0)"
| "js_truthy (JStr s) = (s \<noteq> [])"
| "js_truthy (JObj d) = True"

record fiber =
  displayName :: "string option"
  memoizedProps :: "(string \<times> jsval) list option"

text \<open>\<^verbatim>\<open>fiber.memoizedProps && fiber.memoizedProps.remoteFile\<close>.\<close>

definition props_remoteFile :: "fiber \<Rightarrow> jsval" where
  "props_remoteFile f =
     (case memoizedProps f of
        None \<Rightarrow> JNull
      | Some ps \<Rightarrow> (case map_of ps ''remoteFile'' of None \<Rightarrow> JUndefined | Some v \<Rightarrow> v))"

fun findComponentWithRemoteFile :: "fiber list \<Rightarrow> nat \<Rightarrow> jsval" where
  "findComponentWithRemoteFile [] depth = JNull"
| "findComponentWithRemoteFile (f # parents) depth =
     (if depth > 10 then JNull
      else if displayName f = Some ''DownloadFileButton'' \<and> js_truthy (props_remoteFile f)
      then props_remoteFile f
      else if js_truthy (props_remoteFile f) then props_remoteFile f
      else findComponentWithRemoteFile parents (depth + 1))"

section \<open>File Page Walker\<close>





























section \<open>Download Executor: direct fetch\<close>













section \<open>Predicates on pages, and fixtures\<close>



























section \<open>Properties of the URL Builder\<close>

lemma dict_get_truthy_nonempty: "truthy (dict_get rf k) \<Longrightarrow> rf \<noteq> []"
  by (auto simp: dict_get_def)

lemma lower_True: "py_lower ''True'' = ''true''"
  by (simp add: py_lower_def lower_char_def)

lemma lower_False: "py_lower ''False'' = ''false''"
  by (simp add: py_lower_def lower_char_def)

text \<open>
  Claim C1, as the code has it: for every reference whose \<open>fileId\<close> and \<open>streamUrl\<close>
  are both present (truthy), \<open>build_download_url\<close> of either backend returns that
  \<open>streamUrl\<close> value itself, whatever the two flags are.
\<close>

theorem build_download_url_stream_url:
  assumes "truthy (dict_get rf ''fileId'')" and "truthy (dict_get rf ''streamUrl'')"
  shows "build_download_url (Some rf) is_att plain = dict_get rf ''streamUrl''
       \<and> selenium_build_download_url (Some rf) is_att plain = dict_get rf ''streamUrl''"
  using assms dict_get_truthy_nonempty [OF assms(1)]
  by (simp add: build_download_url_def selenium_build_download_url_def Let_def)

text \<open>The theorem of C1 at a reference with \<open>fileId = 7\<close> and a stream URL.\<close>

theorem build_download_url_stream_url_witness:
  "truthy (dict_get [(''fileId'', PInt 7), (''streamUrl'', PStr ''https://blob.example/f.pdf?sig=abc'')] ''fileId'')
   \<and> truthy (dict_get [(''fileId'', PInt 7), (''streamUrl'', PStr ''https://blob.example/f.pdf?sig=abc'')] ''streamUrl'')
   \<and> build_download_url
        (Some [(''fileId'', PInt 7), (''streamUrl'', PStr ''https://blob.example/f.pdf?sig=abc'')]) True False
       = PStr ''https://blob.example/f.pdf?sig=abc''"
  using build_download_url_stream_url
    [of "[(''fileId'', PInt 7), (''streamUrl'', PStr ''https://blob.example/f.pdf?sig=abc'')]" True False]
  by (simp add: dict_get_def)

text \<open>
  Claim C1 as stated fails: a reference that has a \<open>streamUrl\<close> but no \<open>fileId\<close>
  gets \<open>None\<close>, not its stream URL, because the \<open>fileId\<close> test comes first.
\<close>

theorem stream_url_without_file_id_counterexample:
  "dict_get [(''streamUrl'', PStr ''https://blob.example/f.pdf?sig=abc'')] ''streamUrl''
     = PStr ''https://blob.example/f.pdf?sig=abc''
   \<and> build_download_url (Some [(''streamUrl'', PStr ''https://blob.example/f.pdf?sig=abc'')]) False False
     \<noteq> PStr ''https://blob.example/f.pdf?sig=abc''"
  by (simp add: build_download_url_def dict_get_def)

text \<open>
  Claim C2: \<open>build_download_url\<close> is the three-rule reference definition, on every
  input: no \<open>fileId\<close> gives \<open>None\<close>; else a present \<open>streamUrl\<close> is returned as it
  is; else the API base is followed by the attachment shape or by the stream shape with
  the flag in lower case. The function is total and reads nothing but its arguments.
\<close>

theorem build_download_url_refines_spec:
  "build_download_url file_reference is_att plain = build_download_url_spec file_reference is_att plain"
proof (cases file_reference)
  case None
  then show ?thesis
    by (simp add: build_download_url_def build_download_url_spec_def reference_field_def)
next
  case (Some rf)
  show ?thesis
  proof (cases "rf = []")
    case True
    with Some show ?thesis
      by (simp add: build_download_url_def build_download_url_spec_def reference_field_def dict_get_def)
  next
    case False
    with Some show ?thesis
      by (simp add: build_download_url_def build_download_url_spec_def reference_field_def
          Let_def lower_True lower_False API_BASE_URL_def)
  qed
qed

text \<open>
  Claim C9: the URL builders of the Selenium and of the Playwright backend are the same
  function, and so are their API bases.
\<close>

theorem backends_build_download_url_equal:
  "selenium_build_download_url = build_download_url \<and> selenium_API_BASE_URL = API_BASE_URL"
proof
  show "selenium_build_download_url = build_download_url"
    by (intro ext)
      (simp add: selenium_build_download_url_def build_download_url_def
        selenium_API_BASE_URL_def API_BASE_URL_def Let_def split: option.splits)
  show "selenium_API_BASE_URL = API_BASE_URL"
    by (simp add: selenium_API_BASE_URL_def API_BASE_URL_def)
qed

section \<open>Properties of the Date Extractor\<close>

text \<open>
  Claim C3 at a link with no \<open>data-date\<close>, an accessibility label that names
  February 30 and a visual block that reads February 28: the label's pattern matches, the
  date constructor raises, the outer handler returns \<open>None\<close>, and the third source,
  which parses on its own, is never tried. This holds for every \<open>fromisoformat\<close>.
\<close>

theorem source2_error_hides_source3:
  "extract_meeting_date fromisoformat
     \<lparr>data_date = Returns None,
      aria_label = Returns (Some ''Board of Trustees event on Wednesday, Feb. 30, 2025 6:00 PM''),
      date_text = Returns (Some ''Feb 28, 2025'')\<rparr> = None
   \<and> from_date_text (Returns (Some ''Feb 28, 2025'')) = Some (Date 2025 2 28)"
  by (simp add: extract_meeting_date_def from_data_date_def from_aria_label_def from_date_text_def
      match_aria_def match_h2_def py_strip_def run1_def opt_char_def digits4_def is_alpha_def
      is_space_def is_digit_def month_map_def py_lower_def lower_char_def make_date_def
      int_of_digits_def digit_val_def days_in_month_def is_leap_def)

section \<open>Properties of the date-range filter\<close>

lemma not_date_lt: "\<not> date_lt a b \<longleftrightarrow> date_le b a"
  by (cases a; cases b) (auto simp: date_lt_def date_le_def)

lemma filter_loop_filter:
  "start_date \<noteq> None \<or> end_date \<noteq> None \<Longrightarrow>
   filter_loop start_date end_date ms = filter (in_date_range start_date end_date) ms"
  by (induction ms)
    (auto simp: in_date_range_def not_date_lt[symmetric] split: option.splits)

text \<open>
  Claim C10: without bounds \<open>filter_meetings_by_date_range\<close> returns its input; with a
  bound it returns, in the original order, exactly the meetings that have a date within
  the given bounds, so a meeting without a date is dropped.
\<close>

theorem filter_meetings_by_date_range_spec:
  "filter_meetings_by_date_range meetings start_date end_date =
     (if start_date = None \<and> end_date = None then meetings
      else filter (in_date_range start_date end_date) meetings)"
  using filter_loop_filter [of start_date end_date meetings]
  by (auto simp: filter_meetings_by_date_range_def)

section \<open>Properties of the Component Inspector\<close>

lemma find_walk:
  "findComponentWithRemoteFile chain d =
     (case find (\<lambda>f. js_truthy (props_remoteFile f)) (take (11 - d) chain) of
        None \<Rightarrow> JNull | Some f \<Rightarrow> props_remoteFile f)"
proof (induction chain arbitrary: d)
  case Nil
  then show ?case by simp
next
  case (Cons f parents)
  show ?case
  proof (cases "d > 10")
    case True
    then show ?thesis by simp
  next
    case False
    then have "11 - d = Suc (10 - d)" by simp
    with False Cons [of "d + 1"] show ?thesis
      by simp
  qed
qed

text \<open>
  Claim C6: started at depth 0, the walk returns the \<open>remoteFile\<close> payload of the first
  fiber that has one among the element's own fiber and its ancestors up to depth 10, and
  null when none of these has one; the result depends on nothing above depth 10.
\<close>

theorem findComponentWithRemoteFile_first_within_cap:
  "findComponentWithRemoteFile chain 0 =
     (case find (\<lambda>f. js_truthy (props_remoteFile f)) (take 11 chain) of
        None \<Rightarrow> JNull | Some f \<Rightarrow> props_remoteFile f)"
  using find_walk [of chain 0] by simp

section \<open>Properties of the Download Executor\<close>















section \<open>Properties of the File Page Walker\<close>



























































end
